theory Spec2Isabelle
  imports Main
begin

section \<open>The overseer daemon of src/skills/overseer.py\<close>

text \<open>
  A shallow embedding of the class \<open>Overseer\<close>: the transcript reader, the new-token
  calculation with its watermark, the trigger policy, the worker dispatch and the
  handling of one inbound connection. The instance attributes are a record, every
  method that assigns an attribute returns the record updated, and an exception is
  the \<open>Inl\<close> of a sum, returned together with the state reached when it was raised.

  What lies outside the repository is a parameter: the JSON parser, the tokenizer,
  Python's \<open>repr\<close>, the text of pathlib's type error (record \<open>env\<close>), the files
  on disk (a map from a path to the lines of the file) and the way a spawned worker
  ends (datatype \<open>outcome\<close>). Writing the log file is not modelled, except for the
  line that \<open>_should_trigger_agent\<close> writes, which is returned with its decision.
  The operating system's own failures (an unreadable file, a failing log write)
  are not modelled either, and the bytes read from the socket are taken as the
  string they decode to.
\<close>

subsection \<open>JSON values as Python sees them\<close>

text \<open>
  The value \<open>json.loads\<close> returns. Python's \<open>None\<close> is \<open>JNull\<close>, a dict is the
  list of its items. A float is carried as the text of its literal: only its type
  is ever looked at.
\<close>

datatype json =
    JNull
  | JBool bool
  | JInt int
  | JFloat string
  | JStr string
  | JList "json list"
  | JObj "(string \<times> json) list"

type_synonym dict = "(string \<times> json) list"

text \<open>\<open>d.get(k, dflt)\<close> and \<open>k in d\<close>.\<close>

definition dict_get :: "dict \<Rightarrow> string \<Rightarrow> json \<Rightarrow> json" where
  "dict_get d k dflt = (case map_of d k of Some v \<Rightarrow> v | None \<Rightarrow> dflt)"

definition dict_has :: "dict \<Rightarrow> string \<Rightarrow> bool" where
  "dict_has d k = (case map_of d k of Some v \<Rightarrow> True | None \<Rightarrow> False)"

fun type_name :: "json \<Rightarrow> string" where
  "type_name JNull = ''NoneType''"
| "type_name (JBool b) = ''bool''"
| "type_name (JInt i) = ''int''"
| "type_name (JFloat f) = ''float''"
| "type_name (JStr s) = ''str''"
| "type_name (JList xs) = ''list''"
| "type_name (JObj d) = ''dict''"

subsection \<open>Exceptions\<close>

text \<open>Each exception carries the text that \<open>str(e)\<close> gives.\<close>

datatype exn =
    JSONDecodeError string
  | AttributeError string
  | TypeError string
  | ValueError string

fun exn_msg :: "exn \<Rightarrow> string" where
  "exn_msg (JSONDecodeError m) = m"
| "exn_msg (AttributeError m) = m"
| "exn_msg (TypeError m) = m"
| "exn_msg (ValueError m) = m"

definition quoted :: "string \<Rightarrow> string" where
  "quoted s = CHR 0x27 # s @ [CHR 0x27]"

text \<open>Calling \<open>.get\<close> on a value that is not a dict.\<close>

definition no_get :: "json \<Rightarrow> exn" where
  "no_get v = AttributeError (quoted (type_name v) @ '' object has no attribute '' @ quoted ''get'')"

subsection \<open>The world outside the repository\<close>

text \<open>
  \<open>json_loads\<close> is \<open>json.loads\<close> on a string (\<open>Inl\<close>: the message of its
  JSONDecodeError); \<open>count_tokens\<close> is \<open>len(self.encoder.encode(x))\<close> for any
  argument \<open>x\<close>, which the tokenizer may refuse; \<open>repr\<close> is Python's \<open>repr\<close> of
  a value that is not a string; \<open>path_error\<close> is the text of the TypeError that
  \<open>Path(x)\<close> raises on a value that is not a string.
\<close>

record env =
  json_loads :: "string \<Rightarrow> string + json"
  count_tokens :: "json \<Rightarrow> exn + nat"
  repr :: "json \<Rightarrow> string"
  path_error :: "json \<Rightarrow> string"

type_synonym files = "string \<rightharpoonup> string list"

text \<open>How a spawned worker ends: \<open>communicate\<close> returns (return code, stdout,
  stderr), it times out, or anything else in the \<open>try\<close> block raises before it
  returns.\<close>

datatype outcome = Exited int string string | TimedOut | Raised

text \<open>\<open>str(x)\<close>: a string is itself, anything else is its \<open>repr\<close>.\<close>

definition py_str :: "env \<Rightarrow> json \<Rightarrow> string" where
  "py_str e v = (case v of JStr s \<Rightarrow> s | _ \<Rightarrow> repr e v)"

text \<open>\<open>Path(x)\<close>; a path is kept as the string it was built from.\<close>

definition to_path :: "env \<Rightarrow> json \<Rightarrow> exn + string" where
  "to_path e v = (case v of JStr s \<Rightarrow> Inr s | _ \<Rightarrow> Inl (TypeError (path_error e v)))"

text \<open>\<open>s.strip()\<close> on characters below 256.\<close>

definition is_space :: "char \<Rightarrow> bool" where
  "is_space c = (of_char c \<in> {9, 10, 11, 12, 13, 28, 29, 30, 31, 32, 133, 160 :: nat})"

definition strip :: "string \<Rightarrow> string" where
  "strip s = rev (dropWhile is_space (rev (dropWhile is_space s)))"

text \<open>The slice \<open>xs[i:]\<close>: a negative \<open>i\<close> counts from the end, and a start
  before the first element is the first element.\<close>

definition slice_from :: "'a list \<Rightarrow> int \<Rightarrow> 'a list" where
  "slice_from xs i = (if i < 0 then drop (nat (int (length xs) + i)) xs else drop (nat i) xs)"

subsection \<open>Configuration and session state\<close>

record config =
  trigger_mode :: string
  token_threshold :: int
  prompt_threshold :: int
  trigger_on_first_response :: bool

definition DEFAULT_CONFIG :: config where
  "DEFAULT_CONFIG = \<lparr>trigger_mode = ''tokens'', token_threshold = 10000,
     prompt_threshold = 5, trigger_on_first_response = True\<rparr>"

text \<open>The attributes of an \<open>Overseer\<close>. \<open>active_agent\<close> says whether a worker
  handle is held.\<close>

record overseer =
  running :: bool
  session_id :: json
  transcript_path :: "string option"
  cwd :: "string option"
  active_agent :: bool
  prompt_count :: int
  response_count :: int
  tokens_since_last_trigger :: int
  last_transcript_length :: int
  config :: config

text \<open>\<open>__init__\<close>, and the state once \<open>run\<close> has set \<open>running\<close>.\<close>

definition new_overseer :: "config \<Rightarrow> overseer" where
  "new_overseer c = \<lparr>running = False, session_id = JNull, transcript_path = None,
     cwd = None, active_agent = False, prompt_count = 0, response_count = 0,
     tokens_since_last_trigger = 0, last_transcript_length = 0, config = c\<rparr>"

definition started :: "config \<Rightarrow> overseer" where
  "started c = (new_overseer c)\<lparr>running := True\<rparr>"

subsection \<open>Transcript reader\<close>

text \<open>The loop over the lines of the file: a blank line and a line that does not
  parse are passed over.\<close>

fun parse_lines :: "env \<Rightarrow> string list \<Rightarrow> json list" where
  "parse_lines e [] = []"
| "parse_lines e (l # ls) =
     (let line = strip l in
      if line \<noteq> [] then
        (case json_loads e line of
           Inr v \<Rightarrow> v # parse_lines e ls
         | Inl m \<Rightarrow> parse_lines e ls)
      else parse_lines e ls)"

definition read_transcript :: "env \<Rightarrow> files \<Rightarrow> overseer \<Rightarrow> json list" where
  "read_transcript e fs st =
     (case transcript_path st of
        None \<Rightarrow> []
      | Some p \<Rightarrow> (case fs p of None \<Rightarrow> [] | Some ls \<Rightarrow> parse_lines e ls))"

definition read_transcript_window :: "env \<Rightarrow> files \<Rightarrow> overseer \<Rightarrow> int \<Rightarrow> json list" where
  "read_transcript_window e fs st max_messages = slice_from (read_transcript e fs st) (- max_messages)"

subsection \<open>New tokens since the last check\<close>

text \<open>The inner loop over the elements of a list-valued assistant content.\<close>

fun content_tokens :: "env \<Rightarrow> int \<Rightarrow> json list \<Rightarrow> exn + int" where
  "content_tokens e total_tokens [] = Inr total_tokens"
| "content_tokens e total_tokens (c # cs) =
     (case c of
        JObj d \<Rightarrow>
          (if dict_get d ''type'' JNull = JStr ''text'' then
             (case count_tokens e (dict_get d ''text'' (JStr [])) of
                Inl x \<Rightarrow> Inl x
              | Inr n \<Rightarrow> content_tokens e (total_tokens + int n) cs)
           else content_tokens e total_tokens cs)
      | _ \<Rightarrow> Inl (no_get c))"

text \<open>The body of the outer loop for one message.\<close>

definition msg_tokens :: "env \<Rightarrow> int \<Rightarrow> json \<Rightarrow> exn + int" where
  "msg_tokens e total_tokens msg =
     (case msg of
        JObj d \<Rightarrow>
          (let msg_type = dict_get d ''type'' (JStr []) in
           if msg_type = JStr ''human'' then
             (case dict_get d ''message'' (JObj []) of
                JObj m \<Rightarrow>
                  (case count_tokens e (JStr (py_str e (dict_get m ''content'' (JStr [])))) of
                     Inl x \<Rightarrow> Inl x
                   | Inr n \<Rightarrow> Inr (total_tokens + int n))
              | v \<Rightarrow> Inl (no_get v))
           else if msg_type = JStr ''assistant'' then
             (case dict_get d ''message'' (JObj []) of
                JObj m \<Rightarrow>
                  (case dict_get m ''content'' (JList []) of
                     JList cs \<Rightarrow> content_tokens e total_tokens cs
                   | content \<Rightarrow>
                       (case count_tokens e (JStr (py_str e content)) of
                          Inl x \<Rightarrow> Inl x
                        | Inr n \<Rightarrow> Inr (total_tokens + int n)))
              | v \<Rightarrow> Inl (no_get v))
           else Inr total_tokens)
      | _ \<Rightarrow> Inl (no_get msg))"

fun sum_tokens :: "env \<Rightarrow> int \<Rightarrow> json list \<Rightarrow> exn + int" where
  "sum_tokens e total_tokens [] = Inr total_tokens"
| "sum_tokens e total_tokens (msg # msgs) =
     (case msg_tokens e total_tokens msg of
        Inl x \<Rightarrow> Inl x
      | Inr total_tokens' \<Rightarrow> sum_tokens e total_tokens' msgs)"

definition calculate_new_tokens :: "env \<Rightarrow> files \<Rightarrow> overseer \<Rightarrow> (exn + int) \<times> overseer" where
  "calculate_new_tokens e fs st =
     (let messages = read_transcript e fs st;
          current_length = int (length messages) in
      if current_length \<le> last_transcript_length st then (Inr 0, st)
      else
        (let new_messages = slice_from messages (last_transcript_length st);
             st' = st\<lparr>last_transcript_length := current_length\<rparr>
         in (sum_tokens e 0 new_messages, st')))"

subsection \<open>Worker dispatch\<close>

record agent_context =
  ctx_cwd :: string
  ctx_session_id :: json
  ctx_transcript_window :: "json list"

definition build_agent_context :: "env \<Rightarrow> files \<Rightarrow> overseer \<Rightarrow> agent_context" where
  "build_agent_context e fs st =
     \<lparr>ctx_cwd = (case cwd st of Some p \<Rightarrow> p | None \<Rightarrow> ''.''),
      ctx_session_id = session_id st,
      ctx_transcript_window = read_transcript_window e fs st 50\<rparr>"

text \<open>\<open>_spawn_agent\<close>: the context is built and sent to the worker; the counters
  are reset on the line after \<open>communicate\<close> returns; the two \<open>except\<close> branches
  return without reaching it; \<open>finally\<close> drops the handle. Returned: the context
  sent and the value the method returns.\<close>

definition spawn_agent ::
  "env \<Rightarrow> files \<Rightarrow> outcome \<Rightarrow> overseer \<Rightarrow> (agent_context \<times> string option) \<times> overseer" where
  "spawn_agent e fs oc st =
     (let context = build_agent_context e fs st in
      case oc of
        Exited returncode out err \<Rightarrow>
          (let st' = st\<lparr>tokens_since_last_trigger := 0, prompt_count := 0\<rparr> in
           ((context, if returncode = 0 then Some (strip out) else None),
            st'\<lparr>active_agent := False\<rparr>))
      | TimedOut \<Rightarrow> ((context, None), st\<lparr>active_agent := False\<rparr>)
      | Raised \<Rightarrow> ((context, None), st\<lparr>active_agent := False\<rparr>))"

subsection \<open>Trigger policy\<close>

text \<open>The line \<open>_should_trigger_agent\<close> writes to the log when it decides to fire.\<close>

datatype trigger_log =
    First_response
  | Token_threshold int int
  | Prompt_threshold int int

definition should_trigger_agent :: "overseer \<Rightarrow> json \<Rightarrow> bool \<times> trigger_log option" where
  "should_trigger_agent st event_name =
     (if trigger_on_first_response (config st) \<and> event_name = JStr ''Stop'' \<and> response_count st = 1
      then (True, Some First_response)
      else if trigger_mode (config st) = ''tokens'' then
        (let should = (tokens_since_last_trigger st \<ge> token_threshold (config st)) in
         (should, if should then Some (Token_threshold (tokens_since_last_trigger st) (token_threshold (config st))) else None))
      else
        (let should = (prompt_count st \<ge> prompt_threshold (config st)) in
         (should, if should then Some (Prompt_threshold (prompt_count st) (prompt_threshold (config st))) else None)))"

subsection \<open>Handling an event\<close>

text \<open>What handling one event did besides changing the state: the trigger line
  logged, and the worker's context and the value \<open>_spawn_agent\<close> returned when a
  worker was dispatched.\<close>

record effects =
  logged :: "trigger_log option"
  dispatched :: "(agent_context \<times> string option) option"

definition no_effects :: effects where
  "no_effects = \<lparr>logged = None, dispatched = None\<rparr>"

text \<open>Lines 290 to 296: the session fields taken from the event.\<close>

definition update_session :: "env \<Rightarrow> dict \<Rightarrow> overseer \<Rightarrow> (exn + unit) \<times> overseer" where
  "update_session e event st =
     (let st1 = st\<lparr>session_id := dict_get event ''session_id'' JNull\<rparr> in
      case (if dict_has event ''transcript_path''
            then (case to_path e (dict_get event ''transcript_path'' JNull) of
                    Inl x \<Rightarrow> (Inl x, st1)
                  | Inr p \<Rightarrow> (Inr (), st1\<lparr>transcript_path := Some p\<rparr>))
            else (Inr (), st1)) of
        (Inl x, st2) \<Rightarrow> (Inl x, st2)
      | (Inr u, st2) \<Rightarrow>
          (if dict_has event ''cwd''
           then (case to_path e (dict_get event ''cwd'' JNull) of
                   Inl x \<Rightarrow> (Inl x, st2)
                 | Inr p \<Rightarrow> (Inr (), st2\<lparr>cwd := Some p\<rparr>))
           else (Inr (), st2)))"

text \<open>Lines 304 to 317: the branch on the event name.\<close>

definition branch_on_event :: "env \<Rightarrow> files \<Rightarrow> outcome \<Rightarrow> json \<Rightarrow> overseer \<Rightarrow> effects \<times> overseer" where
  "branch_on_event e fs oc event_name st =
     (if event_name = JStr ''SessionEnd'' then
        (let (sent, st') = spawn_agent e fs oc st
         in (\<lparr>logged = None, dispatched = Some sent\<rparr>, st'\<lparr>running := False\<rparr>))
      else if event_name = JStr ''UserPromptSubmit'' then
        (no_effects, st\<lparr>prompt_count := prompt_count st + 1\<rparr>)
      else if event_name = JStr ''Stop'' then
        (let st1 = st\<lparr>response_count := response_count st + 1\<rparr>;
             (should, lg) = should_trigger_agent st1 event_name
         in if should then
              (let (sent, st') = spawn_agent e fs oc st1
               in (\<lparr>logged = lg, dispatched = Some sent\<rparr>, st'))
            else (\<lparr>logged = lg, dispatched = None\<rparr>, st1))
      else (no_effects, st))"

definition process_event :: "env \<Rightarrow> files \<Rightarrow> outcome \<Rightarrow> json \<Rightarrow> overseer \<Rightarrow> (exn + effects) \<times> overseer" where
  "process_event e fs oc event st =
     (case event of
        JObj d \<Rightarrow>
          (let event_name = dict_get d ''hook_event_name'' (JStr []) in
           case update_session e d st of
             (Inl x, st1) \<Rightarrow> (Inl x, st1)
           | (Inr u, st1) \<Rightarrow>
               (case calculate_new_tokens e fs st1 of
                  (Inl x, st2) \<Rightarrow> (Inl x, st2)
                | (Inr new_tokens, st2) \<Rightarrow>
                    (let st3 = st2\<lparr>tokens_since_last_trigger := tokens_since_last_trigger st2 + new_tokens\<rparr>;
                         (fx, st4) = branch_on_event e fs oc event_name st3
                     in (Inr fx, st4))))
      | _ \<Rightarrow> (Inl (no_get event), st))"

subsection \<open>One connection, and a sequence of them\<close>

text \<open>What one connection brings: the bytes read from the socket, the files as
  they are while the event is handled, and how a worker ends if one is spawned.\<close>

record input =
  message :: string
  disk :: files
  worker :: outcome

text \<open>\<open>_handle_client\<close>: the response written back, the effects, the state.\<close>

definition handle_client :: "env \<Rightarrow> input \<Rightarrow> overseer \<Rightarrow> (string \<times> effects) \<times> overseer" where
  "handle_client e inp st =
     (case json_loads e (message inp) of
        Inl m \<Rightarrow> ((''error: '' @ exn_msg (JSONDecodeError m), no_effects), st)
      | Inr event \<Rightarrow>
          (case process_event e (disk inp) (worker inp) event st of
             (Inl x, st') \<Rightarrow> ((''error: '' @ exn_msg x, no_effects), st')
           | (Inr fx, st') \<Rightarrow> ((''ok'', fx), st')))"

text \<open>The connections of a daemon run, handled one after the other.\<close>

fun serve :: "env \<Rightarrow> input list \<Rightarrow> overseer \<Rightarrow> (string \<times> effects) list \<times> overseer" where
  "serve e [] st = ([], st)"
| "serve e (inp # inps) st =
     (let (out, st') = handle_client e inp st;
          (outs, st'') = serve e inps st'
      in (out # outs, st''))"

subsection \<open>Observing a run\<close>

text \<open>A connection carries a Stop event; it was a Stop event answered \<open>ok\<close>;
  the first-response line was logged while it was handled; \<open>isinstance(x, dict)\<close>.\<close>

definition is_stop :: "env \<Rightarrow> input \<Rightarrow> bool" where
  "is_stop e inp =
     (case json_loads e (message inp) of
        Inr (JObj d) \<Rightarrow> dict_get d ''hook_event_name'' (JStr []) = JStr ''Stop''
      | _ \<Rightarrow> False)"

definition handled_stop :: "env \<Rightarrow> input \<Rightarrow> string \<times> effects \<Rightarrow> bool" where
  "handled_stop e inp out = (is_stop e inp \<and> fst out = ''ok'')"

definition fired_first_response :: "string \<times> effects \<Rightarrow> bool" where
  "fired_first_response out = (logged (snd out) = Some First_response)"


subsection \<open>The trigger policy in the specification's words\<close>

text \<open>Section 4.2: three rules evaluated in order, the first match wins.\<close>

definition trigger_policy :: "json \<Rightarrow> int \<Rightarrow> int \<Rightarrow> int \<Rightarrow> config \<Rightarrow> bool" where
  "trigger_policy event_name responseCount promptCount tokensSinceLastTrigger cfg =
     (if trigger_on_first_response cfg \<and> event_name = JStr ''Stop'' \<and> responseCount = 1 then True
      else if trigger_mode cfg = ''tokens'' then tokensSinceLastTrigger \<ge> token_threshold cfg
      else promptCount \<ge> prompt_threshold cfg)"

subsection \<open>Concrete inputs\<close>

text \<open>Transcript lines and event messages, with the values \<open>json.loads\<close> gives
  for them, a tokenizer that counts one token per character and refuses what is
  not a string, and pathlib's message as of Python 3.11.\<close>

definition human_line :: string where
  \<open>human_line = ''{"type": "human", "message": {"content": "hi"}}''\<close>

definition human_entry :: json where
  "human_entry = JObj [(''type'', JStr ''human''), (''message'', JObj [(''content'', JStr ''hi'')])]"

definition plain_line :: string where
  \<open>plain_line = ''{"type": "assistant", "message": {"content": ["plain"]}}''\<close>

definition plain_entry :: json where
  "plain_entry = JObj [(''type'', JStr ''assistant''), (''message'', JObj [(''content'', JList [JStr ''plain''])])]"

definition broken_line :: string where
  \<open>broken_line = ''{"type": "human", ''\<close>

definition stop_msg :: string where
  \<open>stop_msg = ''{"hook_event_name": "Stop"}''\<close>

definition stop_event :: json where
  "stop_event = JObj [(''hook_event_name'', JStr ''Stop'')]"

definition stop_bad_path_msg :: string where
  \<open>stop_bad_path_msg = ''{"hook_event_name": "Stop", "session_id": "s1", "transcript_path": 5}''\<close>

definition stop_bad_path_event :: json where
  "stop_bad_path_event = JObj [(''hook_event_name'', JStr ''Stop''), (''session_id'', JStr ''s1''),
     (''transcript_path'', JInt 5)]"

definition end_msg :: string where
  \<open>end_msg = ''{"hook_event_name": "SessionEnd"}''\<close>

definition end_event :: json where
  "end_event = JObj [(''hook_event_name'', JStr ''SessionEnd'')]"

definition end_bad_path_msg :: string where
  \<open>end_bad_path_msg = ''{"hook_event_name": "SessionEnd", "transcript_path": 5}''\<close>

definition end_bad_path_event :: json where
  "end_bad_path_event = JObj [(''hook_event_name'', JStr ''SessionEnd''), (''transcript_path'', JInt 5)]"

definition prompt_msg :: string where
  \<open>prompt_msg = ''{"hook_event_name": "UserPromptSubmit", "transcript_path": "/t"}''\<close>

definition prompt_event :: json where
  "prompt_event = JObj [(''hook_event_name'', JStr ''UserPromptSubmit''), (''transcript_path'', JStr ''/t'')]"

definition example_loads :: "string \<Rightarrow> string + json" where
  "example_loads s =
     (if s = human_line then Inr human_entry
      else if s = plain_line then Inr plain_entry
      else if s = stop_msg then Inr stop_event
      else if s = stop_bad_path_msg then Inr stop_bad_path_event
      else if s = end_msg then Inr end_event
      else if s = end_bad_path_msg then Inr end_bad_path_event
      else if s = prompt_msg then Inr prompt_event
      else Inl ''Expecting value: line 1 column 1 (char 0)'')"

definition example_count :: "json \<Rightarrow> exn + nat" where
  "example_count v = (case v of JStr s \<Rightarrow> Inr (length s) | _ \<Rightarrow> Inl (TypeError ''expected string or buffer''))"

definition example_env :: env where
  "example_env = \<lparr>json_loads = example_loads, count_tokens = example_count,
     repr = (\<lambda>v. type_name v),
     path_error = (\<lambda>v. ''expected str, bytes or os.PathLike object, not '' @ type_name v)\<rparr>"

text \<open>A disk whose only file is \<open>/t\<close>.\<close>

definition one_file :: "string list \<Rightarrow> files" where
  "one_file ls = (\<lambda>p. if p = ''/t'' then Some ls else None)"

definition at_t :: "overseer \<Rightarrow> overseer" where
  "at_t st = st\<lparr>transcript_path := Some ''/t''\<rparr>"

text \<open>A session in progress: past its first response, with more tokens
  accumulated than the default threshold.\<close>

definition busy :: overseer where
  "busy = (started DEFAULT_CONFIG)\<lparr>session_id := JStr ''s1'', prompt_count := 3, response_count := 4,
     tokens_since_last_trigger := 12000\<rparr>"

text \<open>Two connections carrying a Stop event, the first with a transcript path
  that is a number, and the context of a session of which nothing is known.\<close>

definition bad_stop_in :: input where
  "bad_stop_in = \<lparr>message = stop_bad_path_msg, disk = Map.empty, worker = Exited 0 ''done'' []\<rparr>"

definition stop_in :: input where
  "stop_in = \<lparr>message = stop_msg, disk = Map.empty, worker = Exited 0 ''done'' []\<rparr>"

definition empty_context :: agent_context where
  "empty_context = \<lparr>ctx_cwd = ''.'', ctx_session_id = JNull, ctx_transcript_window = []\<rparr>"

section \<open>Properties\<close>

subsection \<open>Basic facts\<close>

lemma dict_get_nil: "dict_get [] k dflt = dflt"
  by (simp add: dict_get_def)


lemma read_transcript_after_calc:
  "read_transcript e fs (snd (calculate_new_tokens e fs st)) = read_transcript e fs st"
  by (simp add: calculate_new_tokens_def Let_def read_transcript_def)

lemma calc_second:
  "calculate_new_tokens e fs (snd (calculate_new_tokens e fs st)) =
     (Inr 0, snd (calculate_new_tokens e fs st))"
  by (simp add: calculate_new_tokens_def Let_def read_transcript_def)

lemma calc_watermark_mono:
  "last_transcript_length st \<le> last_transcript_length (snd (calculate_new_tokens e fs st))"
  by (simp add: calculate_new_tokens_def Let_def)

subsection \<open>What each step leaves alone\<close>

lemma update_session_frame:
  "update_session e d st = (r, st') \<Longrightarrow>
     last_transcript_length st' = last_transcript_length st \<and>
     response_count st' = response_count st \<and>
     prompt_count st' = prompt_count st \<and>
     tokens_since_last_trigger st' = tokens_since_last_trigger st \<and>
     config st' = config st \<and> running st' = running st \<and> active_agent st' = active_agent st"
  by (auto simp: update_session_def Let_def split: if_splits sum.splits)

lemma spawn_agent_frame:
  "spawn_agent e fs oc st = (r, st') \<Longrightarrow>
     last_transcript_length st' = last_transcript_length st \<and>
     response_count st' = response_count st \<and>
     config st' = config st \<and> running st' = running st \<and>
     session_id st' = session_id st \<and> transcript_path st' = transcript_path st \<and> cwd st' = cwd st"
  by (auto simp: spawn_agent_def Let_def split: outcome.splits)

lemma calc_frame:
  "calculate_new_tokens e fs st = (r, st') \<Longrightarrow>
     response_count st' = response_count st \<and>
     prompt_count st' = prompt_count st \<and>
     tokens_since_last_trigger st' = tokens_since_last_trigger st \<and>
     config st' = config st \<and> running st' = running st \<and>
     session_id st' = session_id st \<and> transcript_path st' = transcript_path st \<and> cwd st' = cwd st"
  by (auto simp: calculate_new_tokens_def Let_def split: if_splits)

lemma branch_frame:
  "branch_on_event e fs oc nm st = (fx, st') \<Longrightarrow>
     last_transcript_length st' = last_transcript_length st \<and> config st' = config st \<and>
     session_id st' = session_id st \<and> transcript_path st' = transcript_path st \<and> cwd st' = cwd st"
  by (auto simp: branch_on_event_def Let_def split: if_splits prod.splits dest: spawn_agent_frame)

lemma process_event_watermark:
  "last_transcript_length st \<le> last_transcript_length (snd (process_event e fs oc ev st))"
proof (cases ev)
  case (JObj d)
  obtain r1 st1 where u: "update_session e d st = (r1, st1)" by (cases "update_session e d st")
  obtain r2 st2 where c: "calculate_new_tokens e fs st1 = (r2, st2)" by (cases "calculate_new_tokens e fs st1")
  have l1: "last_transcript_length st1 = last_transcript_length st"
    using update_session_frame [OF u] by simp
  have l2: "last_transcript_length st1 \<le> last_transcript_length st2"
    using calc_watermark_mono [of st1 e fs] c by simp
  show ?thesis
  proof (cases r1)
    case (Inl x)
    then show ?thesis using JObj u l1 by (simp add: process_event_def)
  next
    case (Inr u1)
    show ?thesis
    proof (cases r2)
      case (Inl x)
      then show ?thesis using JObj u c Inr l1 l2 by (simp add: process_event_def)
    next
      case (Inr n)
      let ?st3 = "st2\<lparr>tokens_since_last_trigger := tokens_since_last_trigger st2 + n\<rparr>"
      obtain fx st4 where b: "branch_on_event e fs oc (dict_get d ''hook_event_name'' (JStr [])) ?st3 = (fx, st4)"
        by (cases "branch_on_event e fs oc (dict_get d ''hook_event_name'' (JStr [])) ?st3")
      have "last_transcript_length st4 = last_transcript_length st2"
        using branch_frame [OF b] by simp
      then show ?thesis using JObj u c \<open>r1 = Inr u1\<close> Inr b l1 l2 by (simp add: process_event_def)
    qed
  qed
qed (simp_all add: process_event_def)

lemma handle_client_watermark:
  "last_transcript_length st \<le> last_transcript_length (snd (handle_client e inp st))"
  using process_event_watermark [of st e "disk inp" "worker inp"]
  by (auto simp: handle_client_def split: sum.splits prod.splits) (metis snd_conv)+

lemma serve_watermark:
  "last_transcript_length st \<le> last_transcript_length (snd (serve e inps st))"
proof (induction inps arbitrary: st)
  case Nil
  show ?case by simp
next
  case (Cons inp inps)
  have "last_transcript_length st \<le> last_transcript_length (snd (handle_client e inp st))"
    by (rule handle_client_watermark)
  also have "\<dots> \<le> last_transcript_length (snd (serve e inps (snd (handle_client e inp st))))"
    by (rule Cons.IH)
  finally show ?case by (simp add: split_beta)
qed

subsection \<open>The concrete inputs evaluated\<close>

lemma ex_strip_human: "strip human_line = human_line"
  by (simp add: strip_def human_line_def is_space_def)

lemma ex_strip_plain: "strip plain_line = plain_line"
  by (simp add: strip_def plain_line_def is_space_def)

lemma ex_strip_broken: "strip broken_line \<noteq> [] \<and> example_loads (strip broken_line) = Inl ''Expecting value: line 1 column 1 (char 0)''"
  by (simp add: strip_def broken_line_def is_space_def example_loads_def human_line_def plain_line_def
      stop_msg_def stop_bad_path_msg_def end_msg_def end_bad_path_msg_def prompt_msg_def)

lemma ex_loads_human: "example_loads human_line = Inr human_entry"
  by (simp add: example_loads_def)

lemma ex_loads_plain: "example_loads plain_line = Inr plain_entry"
  by (simp add: example_loads_def human_line_def plain_line_def)

lemma ex_env_sel:
  "json_loads example_env = example_loads" "count_tokens example_env = example_count"
  "path_error example_env = (\<lambda>v. ''expected str, bytes or os.PathLike object, not '' @ type_name v)"
  by (simp_all add: example_env_def)

lemma ex_human_nonempty: "human_line \<noteq> []" "plain_line \<noteq> []"
  by (simp_all add: human_line_def plain_line_def)

lemma ex_parse_human: "parse_lines example_env [human_line] = [human_entry]"
  by (simp add: ex_strip_human ex_env_sel ex_loads_human ex_human_nonempty)

lemma ex_parse_human_broken: "parse_lines example_env [human_line, broken_line] = [human_entry]"
  using ex_strip_broken
  by (simp add: ex_strip_human ex_env_sel ex_loads_human ex_human_nonempty)

lemma ex_parse_plain: "parse_lines example_env [plain_line] = [plain_entry]"
  by (simp add: ex_strip_plain ex_env_sel ex_loads_plain ex_human_nonempty)

lemma read_transcript_at_t: "read_transcript e (one_file ls) (at_t st) = parse_lines e ls"
  by (simp add: read_transcript_def one_file_def at_t_def)

lemma ex_loads_stop: "example_loads stop_msg = Inr stop_event"
  by (simp add: example_loads_def human_line_def plain_line_def stop_msg_def)

lemma busy_fields:
  "session_id busy = JStr ''s1''" "prompt_count busy = 3" "response_count busy = 4"
  "tokens_since_last_trigger busy = 12000" "last_transcript_length busy = 0"
  "transcript_path busy = None" "cwd busy = None" "config busy = DEFAULT_CONFIG"
  by (simp_all add: busy_def started_def new_overseer_def)

lemma update_stop_busy:
  "update_session example_env [(''hook_event_name'', JStr ''Stop'')] busy = (Inr (), busy\<lparr>session_id := JNull\<rparr>)"
  by (simp add: update_session_def dict_get_def dict_has_def Let_def)

lemma calc_no_path:
  "transcript_path st = None \<Longrightarrow> 0 \<le> last_transcript_length st \<Longrightarrow> calculate_new_tokens e fs st = (Inr 0, st)"
  by (simp add: calculate_new_tokens_def read_transcript_def Let_def)

lemma window_no_path:
  "transcript_path st = None \<Longrightarrow> read_transcript_window e fs st n = []"
  by (simp add: read_transcript_window_def read_transcript_def slice_from_def)

lemma branch_stop_busy:
  "branch_on_event example_env Map.empty TimedOut (JStr ''Stop'') (busy\<lparr>session_id := JNull\<rparr>) =
    (\<lparr>logged = Some (Token_threshold 12000 10000),
          dispatched = Some (\<lparr>ctx_cwd = ''.'', ctx_session_id = JNull, ctx_transcript_window = []\<rparr>, None)\<rparr>,
     busy\<lparr>session_id := JNull, response_count := 5\<rparr>)"
  by (simp add: branch_on_event_def should_trigger_agent_def Let_def busy_fields DEFAULT_CONFIG_def
      build_agent_context_def window_no_path spawn_agent_def)
     (simp add: busy_def started_def new_overseer_def)


lemma process_stop_busy:
  "process_event example_env Map.empty TimedOut stop_event busy =
    (Inr \<lparr>logged = Some (Token_threshold 12000 10000),
          dispatched = Some (\<lparr>ctx_cwd = ''.'', ctx_session_id = JNull, ctx_transcript_window = []\<rparr>, None)\<rparr>,
     busy\<lparr>session_id := JNull, response_count := 5\<rparr>)"
proof -
  have n: "dict_get [(''hook_event_name'', JStr ''Stop'')] ''hook_event_name'' (JStr []) = JStr ''Stop''"
    by (simp add: dict_get_def)
  have c: "calculate_new_tokens example_env Map.empty (busy\<lparr>session_id := JNull\<rparr>)
             = (Inr 0, busy\<lparr>session_id := JNull\<rparr>)"
    by (rule calc_no_path) (simp_all add: busy_fields)
  have t: "(busy\<lparr>session_id := JNull\<rparr>)\<lparr>tokens_since_last_trigger :=
             tokens_since_last_trigger (busy\<lparr>session_id := JNull\<rparr>) + 0\<rparr> = busy\<lparr>session_id := JNull\<rparr>"
    by simp
  show ?thesis
    unfolding process_event_def stop_event_def
    by (simp only: json.case Let_def n update_stop_busy c t branch_stop_busy prod.case sum.case)
qed

subsection \<open>The steps of handling an event\<close>

lemma read_transcript_window_positive:
  "0 < n \<Longrightarrow> read_transcript_window e fs st n =
     drop (length (read_transcript e fs st) - nat n) (read_transcript e fs st)"
proof -
  assume n: "0 < n"
  have "nat (int (length (read_transcript e fs st)) + - n) = length (read_transcript e fs st) - nat n"
    using n by linarith
  then show ?thesis using n by (simp add: read_transcript_window_def slice_from_def)
qed

lemma spawn_agent_exited_resets:
  "tokens_since_last_trigger (snd (spawn_agent e fs (Exited rc out err) st)) = 0 \<and>
   prompt_count (snd (spawn_agent e fs (Exited rc out err) st)) = 0"
  by (simp add: spawn_agent_def Let_def)

lemma update_session_config:
  "update_session e d (st\<lparr>config := c\<rparr>) =
     (fst (update_session e d st), (snd (update_session e d st))\<lparr>config := c\<rparr>)"
  by (simp add: update_session_def Let_def split: sum.splits)

lemma calc_config:
  "calculate_new_tokens e fs (st\<lparr>config := c\<rparr>) =
     (fst (calculate_new_tokens e fs st), (snd (calculate_new_tokens e fs st))\<lparr>config := c\<rparr>)"
  by (simp add: calculate_new_tokens_def Let_def read_transcript_def)

lemma build_agent_context_config:
  "build_agent_context e fs (st\<lparr>config := c\<rparr>) = build_agent_context e fs st"
  by (simp add: build_agent_context_def read_transcript_window_def read_transcript_def)

lemma spawn_agent_config:
  "spawn_agent e fs oc (st\<lparr>config := c\<rparr>) =
     (fst (spawn_agent e fs oc st), (snd (spawn_agent e fs oc st))\<lparr>config := c\<rparr>)"
  by (simp add: spawn_agent_def Let_def build_agent_context_config split: outcome.splits)

lemma branch_config:
  "nm \<noteq> JStr ''Stop'' \<Longrightarrow> branch_on_event e fs oc nm (st\<lparr>config := c\<rparr>) =
     (fst (branch_on_event e fs oc nm st), (snd (branch_on_event e fs oc nm st))\<lparr>config := c\<rparr>)"
  by (simp add: branch_on_event_def Let_def split_beta spawn_agent_config build_agent_context_config)

lemma branch_session_end:
  "branch_on_event e fs oc (JStr ''SessionEnd'') st = (fx, st') \<Longrightarrow>
     dispatched fx = Some (fst (spawn_agent e fs oc st)) \<and> logged fx = None \<and> \<not> running st'"
  by (auto simp: branch_on_event_def Let_def split_beta)

lemma process_event_object:
  assumes "update_session e d st = (Inr u, st1)"
      and "calculate_new_tokens e fs st1 = (Inr n, st2)"
  shows "process_event e fs oc (JObj d) st =
     (Inr (fst (branch_on_event e fs oc (dict_get d ''hook_event_name'' (JStr []))
               (st2\<lparr>tokens_since_last_trigger := tokens_since_last_trigger st2 + n\<rparr>))),
      snd (branch_on_event e fs oc (dict_get d ''hook_event_name'' (JStr []))
               (st2\<lparr>tokens_since_last_trigger := tokens_since_last_trigger st2 + n\<rparr>)))"
  using assms by (simp add: process_event_def Let_def split_beta)

lemma process_event_update_fails:
  assumes "update_session e d st = (Inl x, st1)"
  shows "process_event e fs oc (JObj d) st = (Inl x, st1)"
  using assms by (simp add: process_event_def Let_def)

lemma process_event_calc_fails:
  assumes "update_session e d st = (Inr u, st1)"
      and "calculate_new_tokens e fs st1 = (Inl x, st2)"
  shows "process_event e fs oc (JObj d) st = (Inl x, st2)"
  using assms by (simp add: process_event_def Let_def)

lemma process_event_cases:
  obtains (update_fails) x st1 where "update_session e d st = (Inl x, st1)"
      "process_event e fs oc (JObj d) st = (Inl x, st1)"
  | (calc_fails) st1 x st2 where "update_session e d st = (Inr (), st1)"
      "calculate_new_tokens e fs st1 = (Inl x, st2)"
      "process_event e fs oc (JObj d) st = (Inl x, st2)"
  | (branches) st1 n st2 where "update_session e d st = (Inr (), st1)"
      "calculate_new_tokens e fs st1 = (Inr n, st2)"
      "process_event e fs oc (JObj d) st =
        (Inr (fst (branch_on_event e fs oc (dict_get d ''hook_event_name'' (JStr []))
               (st2\<lparr>tokens_since_last_trigger := tokens_since_last_trigger st2 + n\<rparr>))),
         snd (branch_on_event e fs oc (dict_get d ''hook_event_name'' (JStr []))
               (st2\<lparr>tokens_since_last_trigger := tokens_since_last_trigger st2 + n\<rparr>)))"
proof -
  obtain r1 st1 where u: "update_session e d st = (r1, st1)" by (cases "update_session e d st")
  obtain r2 st2 where c: "calculate_new_tokens e fs st1 = (r2, st2)"
    by (cases "calculate_new_tokens e fs st1")
  show thesis
  proof (cases r1)
    case (Inl x)
    then show thesis using u update_fails process_event_update_fails by blast
  next
    case r1: (Inr u1)
    with u have u': "update_session e d st = (Inr (), st1)" by simp
    show thesis
    proof (cases r2)
      case (Inl x)
      with c have c': "calculate_new_tokens e fs st1 = (Inl x, st2)" by simp
      show thesis by (rule calc_fails [OF u' c' process_event_calc_fails [OF u' c']])
    next
      case (Inr n)
      with c have c': "calculate_new_tokens e fs st1 = (Inr n, st2)" by simp
      show thesis by (rule branches [OF u' c' process_event_object [OF u' c']])
    qed
  qed
qed

lemma process_event_config:
  assumes "dict_get d ''hook_event_name'' (JStr []) \<noteq> JStr ''Stop''"
  shows "process_event e fs oc (JObj d) (st\<lparr>config := c\<rparr>) =
     (fst (process_event e fs oc (JObj d) st), (snd (process_event e fs oc (JObj d) st))\<lparr>config := c\<rparr>)"
proof (cases rule: process_event_cases [of e d st fs oc])
  case (update_fails x st1)
  have "update_session e d (st\<lparr>config := c\<rparr>) = (Inl x, st1\<lparr>config := c\<rparr>)"
    using update_fails(1) by (simp add: update_session_config)
  then show ?thesis using update_fails(2) by (simp add: process_event_update_fails)
next
  case (calc_fails st1 x st2)
  have "update_session e d (st\<lparr>config := c\<rparr>) = (Inr (), st1\<lparr>config := c\<rparr>)"
    using calc_fails(1) by (simp add: update_session_config)
  moreover have "calculate_new_tokens e fs (st1\<lparr>config := c\<rparr>) = (Inl x, st2\<lparr>config := c\<rparr>)"
    using calc_fails(2) by (simp add: calc_config)
  ultimately show ?thesis using calc_fails(3) by (simp add: process_event_calc_fails)
next
  case (branches st1 n st2)
  let ?st3 = "st2\<lparr>tokens_since_last_trigger := tokens_since_last_trigger st2 + n\<rparr>"
  have 1: "update_session e d (st\<lparr>config := c\<rparr>) = (Inr (), st1\<lparr>config := c\<rparr>)"
    using branches(1) by (simp add: update_session_config)
  have 2: "calculate_new_tokens e fs (st1\<lparr>config := c\<rparr>) = (Inr n, st2\<lparr>config := c\<rparr>)"
    using branches(2) by (simp add: calc_config)
  have 3: "(st2\<lparr>config := c\<rparr>)\<lparr>tokens_since_last_trigger :=
             tokens_since_last_trigger (st2\<lparr>config := c\<rparr>) + n\<rparr> = ?st3\<lparr>config := c\<rparr>"
    by simp
  show ?thesis
    unfolding process_event_object [OF 1 2] 3 branches(3)
    by (simp add: branch_config [OF assms])
qed

lemma ex_loads_end: "example_loads end_msg = Inr end_event"
  by (simp add: example_loads_def human_line_def plain_line_def stop_msg_def stop_bad_path_msg_def end_msg_def)

lemma ex_loads_end_bad: "example_loads end_bad_path_msg = Inr end_bad_path_event"
  by (simp add: example_loads_def human_line_def plain_line_def stop_msg_def stop_bad_path_msg_def
      end_msg_def end_bad_path_msg_def)

lemma ex_loads_stop_bad: "example_loads stop_bad_path_msg = Inr stop_bad_path_event"
  by (simp add: example_loads_def human_line_def plain_line_def stop_msg_def stop_bad_path_msg_def)

lemma ex_loads_prompt: "example_loads prompt_msg = Inr prompt_event"
  by (simp add: example_loads_def human_line_def plain_line_def stop_msg_def stop_bad_path_msg_def
      end_msg_def end_bad_path_msg_def prompt_msg_def)

lemma started_fields:
  "running (started c)" "session_id (started c) = JNull" "transcript_path (started c) = None"
  "cwd (started c) = None" "prompt_count (started c) = 0" "response_count (started c) = 0"
  "tokens_since_last_trigger (started c) = 0" "last_transcript_length (started c) = 0"
  "config (started c) = c" "\<not> active_agent (started c)"
  by (simp_all add: started_def new_overseer_def)

lemma update_session_bare:
  "map_of d ''session_id'' = None \<Longrightarrow> map_of d ''transcript_path'' = None \<Longrightarrow>
   map_of d ''cwd'' = None \<Longrightarrow> session_id st = JNull \<Longrightarrow> update_session e d st = (Inr (), st)"
  by (simp add: update_session_def dict_get_def dict_has_def Let_def)

lemma process_end_started:
  "process_event example_env Map.empty Raised end_event (started DEFAULT_CONFIG) =
     (Inr \<lparr>logged = None,
          dispatched = Some (\<lparr>ctx_cwd = ''.'', ctx_session_id = JNull, ctx_transcript_window = []\<rparr>, None)\<rparr>,
      (started DEFAULT_CONFIG)\<lparr>running := False\<rparr>)"
proof -
  let ?st = "started DEFAULT_CONFIG"
  have u: "update_session example_env [(''hook_event_name'', JStr ''SessionEnd'')] ?st = (Inr (), ?st)"
    by (rule update_session_bare) (simp_all add: started_fields)
  have c: "calculate_new_tokens example_env Map.empty ?st = (Inr 0, ?st)"
    by (rule calc_no_path) (simp_all add: started_fields)
  have n: "dict_get [(''hook_event_name'', JStr ''SessionEnd'')] ''hook_event_name'' (JStr []) = JStr ''SessionEnd''"
    by (simp add: dict_get_def)
  have t: "?st\<lparr>tokens_since_last_trigger := tokens_since_last_trigger ?st + 0\<rparr> = ?st"
    by simp
  have b: "branch_on_event example_env Map.empty Raised (JStr ''SessionEnd'') ?st =
     (\<lparr>logged = None,
          dispatched = Some (\<lparr>ctx_cwd = ''.'', ctx_session_id = JNull, ctx_transcript_window = []\<rparr>, None)\<rparr>,
      ?st\<lparr>running := False\<rparr>)"
    by (simp add: branch_on_event_def Let_def build_agent_context_def window_no_path started_fields
        spawn_agent_def)
  show ?thesis
    unfolding end_event_def process_event_object [OF u c] n t b by simp
qed

lemma process_end_bad_started:
  "process_event example_env fs oc end_bad_path_event (started DEFAULT_CONFIG) =
     (Inl (TypeError ''expected str, bytes or os.PathLike object, not int''), started DEFAULT_CONFIG)"
proof -
  have "update_session example_env
          [(''hook_event_name'', JStr ''SessionEnd''), (''transcript_path'', JInt 5)] (started DEFAULT_CONFIG)
        = (Inl (TypeError ''expected str, bytes or os.PathLike object, not int''), started DEFAULT_CONFIG)"
    by (simp add: update_session_def dict_get_def dict_has_def Let_def to_path_def ex_env_sel)
       (simp add: started_def new_overseer_def)
  then show ?thesis
    unfolding end_bad_path_event_def by (rule process_event_update_fails)
qed

subsection \<open>One connection, and a run of them\<close>

lemma spawn_agent_response_count:
  "response_count (snd (spawn_agent e fs oc st)) = response_count st"
  "config (snd (spawn_agent e fs oc st)) = config st"
  by (simp_all add: spawn_agent_def Let_def split: outcome.splits)

lemma branch_response_count:
  "response_count (snd (branch_on_event e fs oc nm st)) =
     response_count st + (if nm = JStr ''Stop'' then 1 else 0)"
  by (simp add: branch_on_event_def Let_def split_beta spawn_agent_response_count)

lemma branch_fired:
  "logged (fst (branch_on_event e fs oc nm st)) = Some First_response \<longleftrightarrow>
     nm = JStr ''Stop'' \<and> trigger_on_first_response (config st) \<and> response_count st = 0"
  by (simp add: branch_on_event_def Let_def split_beta no_effects_def should_trigger_agent_def)

lemma branch_logged_dispatched:
  "logged (fst (branch_on_event e fs oc nm st)) \<noteq> None \<Longrightarrow>
     dispatched (fst (branch_on_event e fs oc nm st)) \<noteq> None"
  by (simp add: branch_on_event_def Let_def split_beta no_effects_def should_trigger_agent_def
      split: if_splits)

lemma handle_client_step:
  assumes h: "handle_client e inp st = (out, st')"
  shows "config st' = config st
    \<and> response_count st' = response_count st + (if handled_stop e inp out then 1 else 0)
    \<and> (fired_first_response out \<longleftrightarrow>
         handled_stop e inp out \<and> trigger_on_first_response (config st) \<and> response_count st = 0)
    \<and> (fired_first_response out \<longrightarrow> dispatched (snd out) \<noteq> None)"
proof (cases "json_loads e (message inp)")
  case (Inl m)
  then show ?thesis using h
    by (auto simp: handle_client_def handled_stop_def is_stop_def fired_first_response_def no_effects_def)
next
  case ev: (Inr ev)
  show ?thesis
  proof (cases ev)
    case (JObj d)
    let ?nm = "dict_get d ''hook_event_name'' (JStr [])"
    have stop: "is_stop e inp \<longleftrightarrow> ?nm = JStr ''Stop''"
      using ev JObj by (simp add: is_stop_def)
    show ?thesis
    proof (cases rule: process_event_cases [of e d st "disk inp" "worker inp"])
      case (update_fails x st1)
      then have "out = (''error: '' @ exn_msg x, no_effects)" "st' = st1"
        using h ev JObj by (simp_all add: handle_client_def)
      then show ?thesis using update_session_frame [OF update_fails(1)]
        by (simp add: handled_stop_def fired_first_response_def no_effects_def)
    next
      case (calc_fails st1 x st2)
      then have "out = (''error: '' @ exn_msg x, no_effects)" "st' = st2"
        using h ev JObj by (simp_all add: handle_client_def)
      then show ?thesis
        using update_session_frame [OF calc_fails(1)] calc_frame [OF calc_fails(2)]
        by (simp add: handled_stop_def fired_first_response_def no_effects_def)
    next
      case (branches st1 n st2)
      let ?st3 = "st2\<lparr>tokens_since_last_trigger := tokens_since_last_trigger st2 + n\<rparr>"
      let ?b = "branch_on_event e (disk inp) (worker inp) ?nm ?st3"
      have o: "out = (''ok'', fst ?b)" "st' = snd ?b"
        using h ev JObj branches(3) by (simp_all add: handle_client_def)
      have f: "response_count ?st3 = response_count st" "config ?st3 = config st"
        using update_session_frame [OF branches(1)] calc_frame [OF branches(2)] by simp_all
      obtain fx st4 where b: "?b = (fx, st4)" by (cases ?b)
      have c: "config st4 = config st" using branch_frame [OF b] f by simp
      have r: "response_count st4 = response_count st + (if ?nm = JStr ''Stop'' then 1 else 0)"
        using branch_response_count [of e "disk inp" "worker inp" ?nm ?st3] b f by simp
      have g: "logged fx = Some First_response \<longleftrightarrow>
                 ?nm = JStr ''Stop'' \<and> trigger_on_first_response (config st) \<and> response_count st = 0"
        using branch_fired [of e "disk inp" "worker inp" ?nm ?st3] b f by simp
      have d: "logged fx \<noteq> None \<longrightarrow> dispatched fx \<noteq> None"
        using branch_logged_dispatched [of e "disk inp" "worker inp" ?nm ?st3] b by simp
      show ?thesis using o b c r g d stop
        by (auto simp: handled_stop_def fired_first_response_def)
    qed
  qed (use h ev in \<open>auto simp: handle_client_def process_event_def handled_stop_def is_stop_def
        fired_first_response_def no_effects_def\<close>)
qed

lemma length_serve: "length (fst (serve e inps st)) = length inps"
  by (induction inps arbitrary: st) (simp_all add: split_beta)

lemma serve_Cons:
  "fst (serve e (inp # inps) st) =
     fst (handle_client e inp st) # fst (serve e inps (snd (handle_client e inp st)))"
  by (simp add: split_beta)

lemma first_response_at:
  assumes "trigger_on_first_response (config st)" and "0 \<le> response_count st" and "i < length inps"
  shows "(fired_first_response (fst (serve e inps st) ! i) \<longleftrightarrow>
           handled_stop e (inps ! i) (fst (serve e inps st) ! i) \<and> response_count st = 0 \<and>
           (\<forall>j<i. \<not> handled_stop e (inps ! j) (fst (serve e inps st) ! j)))
       \<and> (fired_first_response (fst (serve e inps st) ! i) \<longrightarrow>
           dispatched (snd (fst (serve e inps st) ! i)) \<noteq> None)"
  using assms
proof (induction inps arbitrary: st i)
  case Nil
  then show ?case by simp
next
  case (Cons inp inps)
  obtain out st' where h: "handle_client e inp st = (out, st')" by (cases "handle_client e inp st")
  note s = handle_client_step [OF h]
  show ?case
  proof (cases i)
    case 0
    then show ?thesis using s h Cons.prems by (simp add: serve_Cons del: serve.simps)
  next
    case (Suc k)
    have t: "trigger_on_first_response (config st')" using s Cons.prems by simp
    have p: "0 \<le> response_count st'" using s Cons.prems by simp
    have k: "k < length inps" using Cons.prems Suc by simp
    note ih = Cons.IH [OF t p k]
    have z: "response_count st' = 0 \<longleftrightarrow> response_count st = 0 \<and> \<not> handled_stop e inp out"
      using s Cons.prems(2) by auto
    have q: "(\<forall>j<Suc k. \<not> handled_stop e ((inp # inps) ! j) ((out # fst (serve e inps st')) ! j))
          \<longleftrightarrow> \<not> handled_stop e inp out \<and> (\<forall>j<k. \<not> handled_stop e (inps ! j) (fst (serve e inps st') ! j))"
      by (simp add: All_less_Suc2)
    show ?thesis using ih z q h Suc by (auto simp: serve_Cons simp del: serve.simps)
  qed
qed

lemma response_count_serve:
  "response_count (snd (serve e inps st)) =
     response_count st +
       int (length (filter (\<lambda>(inp, out). handled_stop e inp out) (zip inps (fst (serve e inps st)))))"
proof (induction inps arbitrary: st)
  case Nil
  show ?case by simp
next
  case (Cons inp inps)
  obtain out st' where h: "handle_client e inp st = (out, st')" by (cases "handle_client e inp st")
  have r: "response_count st' = response_count st + (if handled_stop e inp out then 1 else 0)"
    using handle_client_step [OF h] by simp
  show ?case using Cons.IH [of st'] h r by (simp add: split_beta)
qed

lemma ex_bad_stop:
  "handle_client example_env bad_stop_in (started DEFAULT_CONFIG) =
     ((''error: expected str, bytes or os.PathLike object, not int'', no_effects),
      (started DEFAULT_CONFIG)\<lparr>session_id := JStr ''s1''\<rparr>)"
proof -
  have u: "update_session example_env
          [(''hook_event_name'', JStr ''Stop''), (''session_id'', JStr ''s1''), (''transcript_path'', JInt 5)]
          (started DEFAULT_CONFIG)
        = (Inl (TypeError ''expected str, bytes or os.PathLike object, not int''),
           (started DEFAULT_CONFIG)\<lparr>session_id := JStr ''s1''\<rparr>)"
    by (simp add: update_session_def dict_get_def dict_has_def Let_def to_path_def ex_env_sel)
  have "process_event example_env Map.empty (Exited 0 ''done'' []) stop_bad_path_event (started DEFAULT_CONFIG)
        = (Inl (TypeError ''expected str, bytes or os.PathLike object, not int''),
           (started DEFAULT_CONFIG)\<lparr>session_id := JStr ''s1''\<rparr>)"
    unfolding stop_bad_path_event_def using u by (rule process_event_update_fails)
  then show ?thesis
    by (simp add: handle_client_def bad_stop_in_def ex_env_sel ex_loads_stop_bad)
qed

lemma ex_strip_done: "strip ''done'' = ''done''"
  by (simp add: strip_def is_space_def)

lemma ex_first_stop:
  assumes "transcript_path st = None" "cwd st = None" "last_transcript_length st = 0"
      "response_count st = 0" "config st = DEFAULT_CONFIG"
  shows "handle_client example_env stop_in st =
     ((''ok'', \<lparr>logged = Some First_response, dispatched = Some (empty_context, Some ''done'')\<rparr>),
      st\<lparr>session_id := JNull, active_agent := False, prompt_count := 0, response_count := 1,
         tokens_since_last_trigger := 0\<rparr>)"
proof -
  let ?st1 = "st\<lparr>session_id := JNull\<rparr>"
  have u: "update_session example_env [(''hook_event_name'', JStr ''Stop'')] st = (Inr (), ?st1)"
    by (simp add: update_session_def dict_get_def dict_has_def Let_def)
  have c: "calculate_new_tokens example_env Map.empty ?st1 = (Inr 0, ?st1)"
    by (rule calc_no_path) (simp_all add: assms)
  have n: "dict_get [(''hook_event_name'', JStr ''Stop'')] ''hook_event_name'' (JStr []) = JStr ''Stop''"
    by (simp add: dict_get_def)
  have t: "?st1\<lparr>tokens_since_last_trigger := tokens_since_last_trigger ?st1 + 0\<rparr> = ?st1"
    by simp
  have b: "branch_on_event example_env Map.empty (Exited 0 ''done'' []) (JStr ''Stop'') ?st1 =
     (\<lparr>logged = Some First_response, dispatched = Some (empty_context, Some ''done'')\<rparr>,
      st\<lparr>session_id := JNull, active_agent := False, prompt_count := 0, response_count := 1,
         tokens_since_last_trigger := 0\<rparr>)"
    by (simp add: branch_on_event_def should_trigger_agent_def Let_def assms DEFAULT_CONFIG_def
      build_agent_context_def window_no_path spawn_agent_def empty_context_def ex_strip_done)
  have "process_event example_env Map.empty (Exited 0 ''done'' []) stop_event st =
     (Inr \<lparr>logged = Some First_response, dispatched = Some (empty_context, Some ''done'')\<rparr>,
      st\<lparr>session_id := JNull, active_agent := False, prompt_count := 0, response_count := 1,
         tokens_since_last_trigger := 0\<rparr>)"
    unfolding stop_event_def process_event_object [OF u c] n t b by simp
  then show ?thesis
    by (simp add: handle_client_def stop_in_def ex_env_sel ex_loads_stop)
qed

lemma ex_is_stop: "is_stop example_env bad_stop_in" "is_stop example_env stop_in"
  by (simp_all add: is_stop_def bad_stop_in_def stop_in_def ex_env_sel ex_loads_stop ex_loads_stop_bad
      stop_event_def stop_bad_path_event_def dict_get_def)

lemma ex_serve_bad_then_stop:
  "fst (serve example_env [bad_stop_in, stop_in] (started DEFAULT_CONFIG)) =
     [(''error: expected str, bytes or os.PathLike object, not int'', no_effects),
      (''ok'', \<lparr>logged = Some First_response, dispatched = Some (empty_context, Some ''done'')\<rparr>)]"
proof -
  have 2: "handle_client example_env stop_in ((started DEFAULT_CONFIG)\<lparr>session_id := JStr ''s1''\<rparr>) =
     ((''ok'', \<lparr>logged = Some First_response, dispatched = Some (empty_context, Some ''done'')\<rparr>),
      (started DEFAULT_CONFIG)\<lparr>session_id := JStr ''s1''\<rparr>\<lparr>session_id := JNull, active_agent := False,
         prompt_count := 0, response_count := 1, tokens_since_last_trigger := 0\<rparr>)"
    by (rule ex_first_stop) (simp_all add: started_fields)
  show ?thesis
    by (simp only: serve.simps ex_bad_stop 2 Let_def prod.case fst_conv)
qed

lemma branch_logged_other:
  "nm \<noteq> JStr ''Stop'' \<Longrightarrow> logged (fst (branch_on_event e fs oc nm st)) = None"
  by (simp add: branch_on_event_def Let_def split_beta no_effects_def)



lemma slice_from_length_prefix:
  "slice_from (older @ rest) (int (length older)) = rest"
  by (simp add: slice_from_def)

lemma no_get_str:
  "no_get (JStr s) = AttributeError (quoted ''str'' @ '' object has no attribute '' @ quoted ''get'')"
  by (simp add: no_get_def)

section \<open>The claims\<close>

subsection \<open>C1: the counters after a dispatch\<close>

text \<open>
  Claim C1 says that the token and prompt counters are 0 after every dispatch,
  whatever the worker's outcome. Evaluated here: a Stop event arrives in a session
  with 12000 tokens accumulated (threshold 10000) and 3 prompts, the policy fires,
  the worker is dispatched and times out. The event is answered \<open>ok\<close>, and the
  counters are still 12000 and 3: the reset stands after \<open>communicate\<close> inside
  the \<open>try\<close> block, and the \<open>except\<close> branch for the timeout returns without it.
  (When the worker exits, with any return code, both counters are reset: lemma
  \<open>spawn_agent_exited_resets\<close>.)
\<close>

theorem timed_out_worker_keeps_counters:
  "tokens_since_last_trigger busy = 12000 \<and> prompt_count busy = 3
   \<and> fst (handle_client example_env \<lparr>message = stop_msg, disk = Map.empty, worker = TimedOut\<rparr> busy)
     = (''ok'', \<lparr>logged = Some (Token_threshold 12000 10000),
          dispatched = Some (\<lparr>ctx_cwd = ''.'', ctx_session_id = JNull, ctx_transcript_window = []\<rparr>, None)\<rparr>)
   \<and> tokens_since_last_trigger (snd (handle_client example_env
         \<lparr>message = stop_msg, disk = Map.empty, worker = TimedOut\<rparr> busy)) = 12000
   \<and> prompt_count (snd (handle_client example_env
         \<lparr>message = stop_msg, disk = Map.empty, worker = TimedOut\<rparr> busy)) = 3"
  by (simp add: handle_client_def ex_env_sel ex_loads_stop process_stop_busy busy_fields)

subsection \<open>C2: session fields absent from the event\<close>

text \<open>
  Claim C2 says that a session field absent from the event keeps its value.
  Evaluated here: the session identifier is \<open>s1\<close>, the event has no
  \<open>session_id\<close>, and after the event the identifier is \<open>None\<close>:
  \<open>event.get("session_id")\<close> is assigned without the membership test that guards
  \<open>transcript_path\<close> and \<open>cwd\<close>.
\<close>

theorem absent_session_id_is_overwritten:
  "session_id busy = JStr ''s1'' \<and> stop_event = JObj [(''hook_event_name'', JStr ''Stop'')]
   \<and> session_id (snd (process_event example_env Map.empty TimedOut stop_event busy)) = JNull"
  by (simp add: process_stop_busy busy_fields) (simp add: stop_event_def)

subsection \<open>C3: the response, and the state after a failed event\<close>




subsection \<open>C4: the trigger decision\<close>

text \<open>
  Claim C4. The decision of \<open>_should_trigger_agent\<close> is the function of the event
  name, the response count, the prompt count, the tokens since the last trigger and
  the configuration that section 4.2 of the specification describes: fire on the
  first-response rule; else, in tokens mode, fire exactly when the tokens have
  reached the token threshold; else fire exactly when the prompts have reached the
  prompt threshold. Nothing else of the state is read, and no state is returned.
\<close>

theorem should_trigger_agent_policy:
  "fst (should_trigger_agent st event_name) =
     trigger_policy event_name (response_count st) (prompt_count st)
       (tokens_since_last_trigger st) (config st)"
  by (simp add: should_trigger_agent_def trigger_policy_def Let_def)

subsection \<open>C5: the first-response rule\<close>

text \<open>
  Claim C5 says that with \<open>trigger_on_first_response\<close> set the first-response rule
  fires on the first Stop event of the session and never again, the response count
  being incremented on every Stop. What holds: the rule fires on the first Stop
  event that is answered \<open>ok\<close>, and on no other event; the worker is dispatched
  when it fires; the response count is the number of Stop events answered \<open>ok\<close>
  and is never reset. This holds for every configuration with the flag set,
  whatever the thresholds and the token and prompt counters. A Stop event whose
  handling raises before line 314 (answered \<open>error: ...\<close>) does not count.
\<close>

theorem first_response_fires_once:
  assumes "trigger_on_first_response (config st)" and "response_count st = 0" and "i < length inps"
  shows "(fired_first_response (fst (serve e inps st) ! i) \<longleftrightarrow>
           handled_stop e (inps ! i) (fst (serve e inps st) ! i) \<and>
           (\<forall>j<i. \<not> handled_stop e (inps ! j) (fst (serve e inps st) ! j)))
       \<and> (fired_first_response (fst (serve e inps st) ! i) \<longrightarrow>
           dispatched (snd (fst (serve e inps st) ! i)) \<noteq> None)
       \<and> response_count (snd (serve e inps st)) =
           int (length (filter (\<lambda>(inp, out). handled_stop e inp out) (zip inps (fst (serve e inps st)))))"
proof -
  have p: "0 \<le> response_count st" using assms(2) by simp
  show ?thesis
    using first_response_at [OF assms(1) p assms(3), of e] response_count_serve [of e inps st] assms(2)
    by simp
qed

theorem first_response_fires_once_witness:
  "fired_first_response (fst (serve example_env [stop_in] (started DEFAULT_CONFIG)) ! 0)
   \<and> dispatched (snd (fst (serve example_env [stop_in] (started DEFAULT_CONFIG)) ! 0)) \<noteq> None
   \<and> response_count (snd (serve example_env [stop_in] (started DEFAULT_CONFIG))) = 1"
proof -
  let ?st = "started DEFAULT_CONFIG"
  have h: "handle_client example_env stop_in ?st =
     ((''ok'', \<lparr>logged = Some First_response, dispatched = Some (empty_context, Some ''done'')\<rparr>),
      ?st\<lparr>session_id := JNull, active_agent := False, prompt_count := 0, response_count := 1,
         tokens_since_last_trigger := 0\<rparr>)"
    by (rule ex_first_stop) (simp_all add: started_fields)
  have o: "fst (serve example_env [stop_in] ?st) =
     [(''ok'', \<lparr>logged = Some First_response, dispatched = Some (empty_context, Some ''done'')\<rparr>)]"
    by (simp only: serve.simps h Let_def prod.case fst_conv)
  have a: "trigger_on_first_response (config ?st)"
    by (simp add: started_fields DEFAULT_CONFIG_def)
  have b: "response_count ?st = 0" by (simp add: started_fields)
  have c: "(0::nat) < length [stop_in]" by simp
  have d: "handled_stop example_env stop_in
             (''ok'', \<lparr>logged = Some First_response, dispatched = Some (empty_context, Some ''done'')\<rparr>)"
    by (simp add: handled_stop_def ex_is_stop)
  have "handled_stop example_env ([stop_in] ! 0) (fst (serve example_env [stop_in] ?st) ! 0)"
    unfolding o using d by simp
  then show ?thesis
    using first_response_fires_once [OF a b c, of example_env]
    unfolding o by (simp del: serve.simps)
qed

text \<open>
  The claim as stated fails: the first Stop event below carries a transcript path
  that is a number, \<open>Path(5)\<close> raises on line 293, the event is answered with an
  error and nothing is dispatched; the response count is still 0, and the rule
  fires on the second Stop event. After the two Stop events the response count
  is 1.
\<close>

theorem later_stop_fires_first_response:
  "trigger_on_first_response (config (started DEFAULT_CONFIG))
   \<and> is_stop example_env bad_stop_in \<and> is_stop example_env stop_in
   \<and> fst (fst (serve example_env [bad_stop_in, stop_in] (started DEFAULT_CONFIG)) ! 0)
        = ''error: expected str, bytes or os.PathLike object, not int''
   \<and> \<not> fired_first_response (fst (serve example_env [bad_stop_in, stop_in] (started DEFAULT_CONFIG)) ! 0)
   \<and> dispatched (snd (fst (serve example_env [bad_stop_in, stop_in] (started DEFAULT_CONFIG)) ! 0)) = None
   \<and> fired_first_response (fst (serve example_env [bad_stop_in, stop_in] (started DEFAULT_CONFIG)) ! 1)
   \<and> response_count (snd (serve example_env [bad_stop_in, stop_in] (started DEFAULT_CONFIG))) = 1"
proof -
  have t: "trigger_on_first_response (config (started DEFAULT_CONFIG))"
    by (simp add: started_fields DEFAULT_CONFIG_def)
  have r: "response_count (snd (serve example_env [bad_stop_in, stop_in] (started DEFAULT_CONFIG))) = 1"
    unfolding response_count_serve [of example_env "[bad_stop_in, stop_in]" "started DEFAULT_CONFIG"]
      ex_serve_bad_then_stop
    by (simp add: handled_stop_def ex_is_stop started_fields)
  show ?thesis
    using t r unfolding ex_serve_bad_then_stop
    by (simp add: ex_is_stop fired_first_response_def no_effects_def del: serve.simps)
qed

subsection \<open>C6: the watermark\<close>

text \<open>
  Claim C6. When the transcript is not longer than the watermark, the new-token
  calculation returns 0 and leaves the state, the watermark with it, as it was;
  otherwise it sets the watermark to the length of the transcript and changes
  nothing else. So the watermark does not decrease over one calculation nor over
  any sequence of handled connections, and a second calculation over the same files
  returns 0 and changes nothing.
\<close>

theorem watermark_never_decreases:
  "(int (length (read_transcript e fs st)) \<le> last_transcript_length st \<longrightarrow>
      calculate_new_tokens e fs st = (Inr 0, st))
   \<and> (last_transcript_length st < int (length (read_transcript e fs st)) \<longrightarrow>
      snd (calculate_new_tokens e fs st) =
        st\<lparr>last_transcript_length := int (length (read_transcript e fs st))\<rparr>)
   \<and> last_transcript_length st \<le> last_transcript_length (snd (calculate_new_tokens e fs st))
   \<and> last_transcript_length st \<le> last_transcript_length (snd (serve e inps st))
   \<and> calculate_new_tokens e fs (snd (calculate_new_tokens e fs st)) =
        (Inr 0, snd (calculate_new_tokens e fs st))"
proof -
  have a: "int (length (read_transcript e fs st)) \<le> last_transcript_length st \<longrightarrow>
      calculate_new_tokens e fs st = (Inr 0, st)"
    by (simp add: calculate_new_tokens_def Let_def)
  have b: "last_transcript_length st < int (length (read_transcript e fs st)) \<longrightarrow>
      snd (calculate_new_tokens e fs st) =
        st\<lparr>last_transcript_length := int (length (read_transcript e fs st))\<rparr>"
    by (simp add: calculate_new_tokens_def Let_def)
  show ?thesis
    using a b calc_watermark_mono [of st e fs] serve_watermark [of st e inps] calc_second [of e fs st]
    by blast
qed

theorem watermark_never_decreases_witness:
  "calculate_new_tokens example_env (one_file [human_line])
      (at_t ((started DEFAULT_CONFIG)\<lparr>last_transcript_length := 1\<rparr>))
     = (Inr 0, at_t ((started DEFAULT_CONFIG)\<lparr>last_transcript_length := 1\<rparr>))
   \<and> last_transcript_length (snd (calculate_new_tokens example_env (one_file [human_line])
        (at_t (started DEFAULT_CONFIG)))) = 1"
proof -
  let ?fs = "one_file [human_line]"
  let ?st0 = "at_t (started DEFAULT_CONFIG)"
  let ?st1 = "at_t ((started DEFAULT_CONFIG)\<lparr>last_transcript_length := 1\<rparr>)"
  have r0: "int (length (read_transcript example_env ?fs ?st0)) = 1"
    by (simp only: read_transcript_at_t ex_parse_human) simp
  have r1: "int (length (read_transcript example_env ?fs ?st1)) = 1"
    by (simp only: read_transcript_at_t ex_parse_human) simp
  have w0: "last_transcript_length ?st0 = 0"
    by (simp add: at_t_def started_def new_overseer_def)
  have w1: "last_transcript_length ?st1 = 1"
    by (simp add: at_t_def)
  have 1: "calculate_new_tokens example_env ?fs ?st1 = (Inr 0, ?st1)"
    using watermark_never_decreases [of example_env ?fs ?st1] r1 w1 by simp
  have "snd (calculate_new_tokens example_env ?fs ?st0) = ?st0\<lparr>last_transcript_length := 1\<rparr>"
    using watermark_never_decreases [of example_env ?fs ?st0] r0 w0 by simp
  then have 2: "last_transcript_length (snd (calculate_new_tokens example_env ?fs ?st0)) = 1"
    by simp
  show ?thesis using 1 2 by simp
qed

subsection \<open>C7: SessionEnd\<close>

text \<open>
  Claim C7 says that processing a SessionEnd event dispatches the worker without
  consulting the trigger policy, whatever the counters, and then stops the daemon,
  and that the policy is consulted only for a Stop event. What holds: when the
  session fields of a SessionEnd event are accepted and the new-token calculation
  does not raise, the event is handled without an exception, the worker is
  dispatched, no trigger line is logged and \<open>running\<close> is false afterwards,
  whatever the state before. For every event whose name is not Stop no trigger
  line is logged, and the result and the state after it do not depend on the
  configuration, which is all the policy reads besides the counters.
\<close>

theorem session_end_dispatches:
  "(dict_get d ''hook_event_name'' (JStr []) = JStr ''SessionEnd'' \<and>
    fst (update_session e d st) = Inr () \<and>
    fst (calculate_new_tokens e fs (snd (update_session e d st))) = Inr n \<longrightarrow>
      (case fst (process_event e fs oc (JObj d) st) of
         Inl x \<Rightarrow> False
       | Inr fx \<Rightarrow> dispatched fx \<noteq> None \<and> logged fx = None)
      \<and> \<not> running (snd (process_event e fs oc (JObj d) st)))
   \<and> (dict_get d ''hook_event_name'' (JStr []) \<noteq> JStr ''Stop'' \<longrightarrow>
      (case fst (process_event e fs oc (JObj d) st) of
         Inl x \<Rightarrow> True
       | Inr fx \<Rightarrow> logged fx = None)
      \<and> process_event e fs oc (JObj d) (st\<lparr>config := c\<rparr>) =
          (fst (process_event e fs oc (JObj d) st),
           (snd (process_event e fs oc (JObj d) st))\<lparr>config := c\<rparr>))"
proof (intro conjI impI)
  assume a: "dict_get d ''hook_event_name'' (JStr []) = JStr ''SessionEnd'' \<and>
    fst (update_session e d st) = Inr () \<and>
    fst (calculate_new_tokens e fs (snd (update_session e d st))) = Inr n"
  let ?st1 = "snd (update_session e d st)"
  let ?st2 = "snd (calculate_new_tokens e fs ?st1)"
  let ?st3 = "?st2\<lparr>tokens_since_last_trigger := tokens_since_last_trigger ?st2 + n\<rparr>"
  have u: "update_session e d st = (Inr (), ?st1)" using a by (simp add: prod_eq_iff)
  have c: "calculate_new_tokens e fs ?st1 = (Inr n, ?st2)" using a by (simp add: prod_eq_iff)
  obtain fx st' where b: "branch_on_event e fs oc (JStr ''SessionEnd'') ?st3 = (fx, st')"
    by (cases "branch_on_event e fs oc (JStr ''SessionEnd'') ?st3")
  have p: "process_event e fs oc (JObj d) st = (Inr fx, st')"
    using process_event_object [OF u c, of oc] a b by simp
  show "case fst (process_event e fs oc (JObj d) st) of
         Inl x \<Rightarrow> False
       | Inr fx \<Rightarrow> dispatched fx \<noteq> None \<and> logged fx = None"
    using p branch_session_end [OF b] by simp
  show "\<not> running (snd (process_event e fs oc (JObj d) st))"
    using p branch_session_end [OF b] by simp
next
  assume ns: "dict_get d ''hook_event_name'' (JStr []) \<noteq> JStr ''Stop''"
  show "case fst (process_event e fs oc (JObj d) st) of
         Inl x \<Rightarrow> True
       | Inr fx \<Rightarrow> logged fx = None"
    by (cases rule: process_event_cases [of e d st fs oc])
       (simp_all add: branch_logged_other [OF ns])
  show "process_event e fs oc (JObj d) (st\<lparr>config := c\<rparr>) =
          (fst (process_event e fs oc (JObj d) st),
           (snd (process_event e fs oc (JObj d) st))\<lparr>config := c\<rparr>)"
    by (rule process_event_config [OF ns])
qed

theorem session_end_dispatches_witness:
  "fst (process_event example_env Map.empty Raised end_event (started DEFAULT_CONFIG)) =
     Inr \<lparr>logged = None, dispatched = Some (empty_context, None)\<rparr>
   \<and> \<not> running (snd (process_event example_env Map.empty Raised end_event (started DEFAULT_CONFIG)))"
proof -
  let ?d = "[(''hook_event_name'', JStr ''SessionEnd'')]"
  let ?st = "started DEFAULT_CONFIG"
  have n: "dict_get ?d ''hook_event_name'' (JStr []) = JStr ''SessionEnd''"
    by (simp add: dict_get_def)
  have u: "update_session example_env ?d ?st = (Inr (), ?st)"
    by (rule update_session_bare) (simp_all add: started_fields)
  have c: "calculate_new_tokens example_env Map.empty ?st = (Inr 0, ?st)"
    by (rule calc_no_path) (simp_all add: started_fields)
  have "\<not> running (snd (process_event example_env Map.empty Raised (JObj ?d) ?st))"
    using session_end_dispatches [of ?d example_env ?st Map.empty 0 Raised] n u c by simp
  then show ?thesis
    unfolding end_event_def [symmetric]
    by (simp add: process_end_started empty_context_def)
qed

text \<open>
  The claim as stated fails: a SessionEnd event whose transcript path is a number
  raises on line 293, before the branch on the event name; it is answered with an
  error, no worker is dispatched and the daemon keeps running.
\<close>

theorem session_end_with_bad_path_not_dispatched:
  "dict_get [(''hook_event_name'', JStr ''SessionEnd''), (''transcript_path'', JInt 5)]
      ''hook_event_name'' (JStr []) = JStr ''SessionEnd''
   \<and> example_loads end_bad_path_msg =
       Inr (JObj [(''hook_event_name'', JStr ''SessionEnd''), (''transcript_path'', JInt 5)])
   \<and> handle_client example_env
        \<lparr>message = end_bad_path_msg, disk = Map.empty, worker = Exited 0 ''done'' []\<rparr>
        (started DEFAULT_CONFIG)
      = ((''error: expected str, bytes or os.PathLike object, not int'',
          \<lparr>logged = None, dispatched = None\<rparr>), started DEFAULT_CONFIG)
   \<and> running (started DEFAULT_CONFIG)"
  by (simp add: handle_client_def ex_env_sel ex_loads_end_bad process_end_bad_started no_effects_def
      started_fields dict_get_def) (simp add: end_bad_path_event_def)

subsection \<open>C8: reading the transcript\<close>



subsection \<open>C9: the windowed read\<close>

text \<open>
  Claim C9 says that for every window size \<open>N \<ge> 0\<close> the windowed read returns at
  most the last \<open>N\<close> entries. Evaluated here at \<open>N = 0\<close> on a transcript of one
  entry: the slice \<open>messages[-0:]\<close> is \<open>messages[0:]\<close>, and the read returns
  the one entry of the transcript, not the empty list. (For \<open>N > 0\<close> the read is
  the last \<open>N\<close> entries in their order: lemma \<open>read_transcript_window_positive\<close>.)
\<close>

theorem read_transcript_window_zero_returns_all:
  "read_transcript example_env (one_file [human_line]) (at_t (started DEFAULT_CONFIG)) = [human_entry]
   \<and> read_transcript_window example_env (one_file [human_line]) (at_t (started DEFAULT_CONFIG)) 0
     = [human_entry]"
  by (simp only: read_transcript_window_def read_transcript_at_t ex_parse_human) (simp add: slice_from_def)

subsection \<open>C10: a valid transcript on which the calculation raises\<close>

text \<open>
  Claim C10. Let the first transcript entry beyond the watermark be an assistant
  entry whose message content is a list that starts with a plain string. Then the
  new-token calculation raises the AttributeError of \<open>c.get\<close> on a string, with
  the watermark already set to the length of the transcript; the event being
  handled is answered \<open>error: 'str' object has no attribute 'get'\<close>; and the
  next calculation over the same files returns 0, so that the entries beyond the
  old watermark are never counted. The witness is a transcript of one line of
  valid JSON.
\<close>

theorem string_in_content_list_raises:
  assumes ev: "json_loads e (message inp) = Inr (JObj ev)"
      and u: "update_session e ev st0 = (Inr (), st)"
      and r: "read_transcript e (disk inp) st = older @ JObj d # later"
      and w: "last_transcript_length st = int (length older)"
      and t: "dict_get d ''type'' (JStr []) = JStr ''assistant''"
      and m: "dict_get d ''message'' (JObj []) = JObj msg"
      and c: "dict_get msg ''content'' (JList []) = JList (JStr s # rest)"
  shows "calculate_new_tokens e (disk inp) st =
          (Inl (AttributeError (quoted ''str'' @ '' object has no attribute '' @ quoted ''get'')),
           st\<lparr>last_transcript_length := int (length (older @ JObj d # later))\<rparr>)
     \<and> handle_client e inp st0 =
          ((''error: '' @ quoted ''str'' @ '' object has no attribute '' @ quoted ''get'', no_effects),
           st\<lparr>last_transcript_length := int (length (older @ JObj d # later))\<rparr>)
     \<and> calculate_new_tokens e (disk inp)
          (st\<lparr>last_transcript_length := int (length (older @ JObj d # later))\<rparr>) =
          (Inr 0, st\<lparr>last_transcript_length := int (length (older @ JObj d # later))\<rparr>)"
proof -
  let ?st' = "st\<lparr>last_transcript_length := int (length (older @ JObj d # later))\<rparr>"
  let ?x = "AttributeError (quoted ''str'' @ '' object has no attribute '' @ quoted ''get'')"
  have mt: "msg_tokens e 0 (JObj d) = Inl ?x"
    by (simp add: msg_tokens_def t m c no_get_str)
  have st: "sum_tokens e 0 (JObj d # later) = Inl ?x"
    by (simp add: mt)
  have sl: "slice_from (older @ JObj d # later) (int (length older)) = JObj d # later"
    by (rule slice_from_length_prefix)
  have 1: "calculate_new_tokens e (disk inp) st = (Inl ?x, ?st')"
    unfolding calculate_new_tokens_def Let_def r w sl st by simp
  have 2: "process_event e (disk inp) (worker inp) (JObj ev) st0 = (Inl ?x, ?st')"
    by (rule process_event_calc_fails [OF u 1])
  have 3: "handle_client e inp st0 = ((''error: '' @ exn_msg ?x, no_effects), ?st')"
    by (simp add: handle_client_def ev 2)
  have 4: "calculate_new_tokens e (disk inp) ?st' = (Inr 0, ?st')"
    using calc_second [of e "disk inp" st] 1 by simp
  show ?thesis using 1 3 4 by simp
qed

theorem string_in_content_list_raises_witness:
  "json_loads example_env (strip plain_line) = Inr plain_entry
   \<and> handle_client example_env \<lparr>message = prompt_msg, disk = one_file [plain_line], worker = Raised\<rparr>
        (started DEFAULT_CONFIG) =
       ((''error: '' @ quoted ''str'' @ '' object has no attribute '' @ quoted ''get'', no_effects),
        (at_t (started DEFAULT_CONFIG))\<lparr>last_transcript_length := 1\<rparr>)
   \<and> calculate_new_tokens example_env (one_file [plain_line])
        ((at_t (started DEFAULT_CONFIG))\<lparr>last_transcript_length := 1\<rparr>) =
       (Inr 0, (at_t (started DEFAULT_CONFIG))\<lparr>last_transcript_length := 1\<rparr>)"
proof -
  let ?inp = "\<lparr>message = prompt_msg, disk = one_file [plain_line], worker = Raised\<rparr>"
  let ?ev = "[(''hook_event_name'', JStr ''UserPromptSubmit''), (''transcript_path'', JStr ''/t'')]"
  let ?d = "[(''type'', JStr ''assistant''), (''message'', JObj [(''content'', JList [JStr ''plain''])])]"
  let ?st = "at_t (started DEFAULT_CONFIG)"
  have l: "json_loads example_env (strip plain_line) = Inr plain_entry"
    by (simp add: ex_strip_plain ex_env_sel ex_loads_plain)
  have ev: "json_loads example_env (message ?inp) = Inr (JObj ?ev)"
    by (simp add: ex_env_sel ex_loads_prompt prompt_event_def)
  have u: "update_session example_env ?ev (started DEFAULT_CONFIG) = (Inr (), ?st)"
    by (simp add: update_session_def dict_get_def dict_has_def Let_def to_path_def at_t_def
        started_def new_overseer_def)
  have r: "read_transcript example_env (disk ?inp) ?st = [] @ JObj ?d # []"
    by (simp only: input.simps read_transcript_at_t ex_parse_plain plain_entry_def append_Nil)
  have w: "last_transcript_length ?st = int (length ([] :: json list))"
    by (simp add: at_t_def started_fields)
  have t: "dict_get ?d ''type'' (JStr []) = JStr ''assistant''" by (simp add: dict_get_def)
  have m: "dict_get ?d ''message'' (JObj []) = JObj [(''content'', JList [JStr ''plain''])]"
    by (simp add: dict_get_def)
  have c: "dict_get [(''content'', JList [JStr ''plain''])] ''content'' (JList []) = JList (JStr ''plain'' # [])"
    by (simp add: dict_get_def)
  show ?thesis
    using string_in_content_list_raises [OF ev u r w t m c] l by simp
qed

end
